theory Spec2Isabelle
  imports Complex_Main
begin

section \<open>Value types used by GeometryPoint\<close>

text \<open>
  The C++ code works on Qt's value types. \<open>qreal\<close> is a \<open>double\<close>; it is modelled by
  \<^typ>\<open>real\<close>. All concrete sizes that appear below (32, 64, 16, 100, 3200, 3.125, 20) and
  the powers of two that scale them are exactly representable as doubles, so on those
  inputs the real-number result is the double result. What only a double has is outside
  the model: rounding, overflow to infinity for zoom differences beyond the exponent
  range, NaN (which compares unequal to itself) and the sign of zero. Zoom levels are C++
  \<open>int\<close>s, modelled by \<^typ>\<open>int\<close>; the only arithmetic on them is the difference
  \<open>m_base_zoom - controller_zoom\<close>, which for zoom levels of a map is far from the bounds
  of an \<open>int\<close>.
\<close>

datatype QPointF = QPointF (xp: real) (yp: real)

datatype QSize = QSize (wd: int) (ht: int)

datatype QSizeF = QSizeF (width: real) (height: real)

datatype QRectF = QRectF (rect_x: real) (rect_y: real) (rect_w: real) (rect_h: real)

text \<open>\<open>QSize::isEmpty\<close>: either extent is less than 1.\<close>

definition isEmpty :: "QSize \<Rightarrow> bool" where
  "isEmpty s = (wd s < 1 \<or> ht s < 1)"

text \<open>The implicit conversion \<open>QSizeF(const QSize&)\<close>.\<close>

definition toQSizeF :: "QSize \<Rightarrow> QSizeF" where
  "toQSizeF s = QSizeF (real_of_int (wd s)) (real_of_int (ht s))"

definition setHeight :: "QSizeF \<Rightarrow> real \<Rightarrow> QSizeF" where
  "setHeight s h = QSizeF (width s) h"

definition setWidth :: "QSizeF \<Rightarrow> real \<Rightarrow> QSizeF" where
  "setWidth s w = QSizeF w (height s)"

text \<open>\<open>QPointF operator+\<close>.\<close>

definition QPointF_add :: "QPointF \<Rightarrow> QPointF \<Rightarrow> QPointF" where
  "QPointF_add p q = QPointF (xp p + xp q) (yp p + yp q)"

text \<open>The constructors \<open>QRectF()\<close>, \<open>QRectF(topLeft, size)\<close> and \<open>QRectF(topLeft, bottomRight)\<close>,
  and the corner accessors.\<close>

definition QRectF_null :: QRectF where
  "QRectF_null = QRectF 0 0 0 0"

definition QRectF_sized :: "QPointF \<Rightarrow> QSizeF \<Rightarrow> QRectF" where
  "QRectF_sized top_left s = QRectF (xp top_left) (yp top_left) (width s) (height s)"

definition QRectF_corners :: "QPointF \<Rightarrow> QPointF \<Rightarrow> QRectF" where
  "QRectF_corners top_left bottom_right =
     QRectF (xp top_left) (yp top_left)
            (xp bottom_right - xp top_left) (yp bottom_right - yp top_left)"

definition topLeft :: "QRectF \<Rightarrow> QPointF" where
  "topLeft r = QPointF (rect_x r) (rect_y r)"

definition topRight :: "QRectF \<Rightarrow> QPointF" where
  "topRight r = QPointF (rect_x r + rect_w r) (rect_y r)"

definition bottomRight :: "QRectF \<Rightarrow> QPointF" where
  "bottomRight r = QPointF (rect_x r + rect_w r) (rect_y r + rect_h r)"

text \<open>
  \<open>PointWorldCoord\<close> (longitude/latitude) and \<open>PointWorldPx\<close> (pixels at one zoom level) are
  distinct wrappers around a \<open>QPointF\<close>; their header is not among the sources, so the
  model takes from the code only what it uses of them: construction from two components,
  \<open>rawPoint()\<close>, \<open>x()\<close>, \<open>y()\<close>, the addition of a pixel offset and the comparison
  \<open>!=\<close>.
\<close>

datatype PointWorldCoord = PointWorldCoord_raw (rawPointCoord: QPointF)

datatype PointWorldPx = PointWorldPx_raw (rawPointPx: QPointF)

definition PointWorldCoord :: "real \<Rightarrow> real \<Rightarrow> PointWorldCoord" where
  "PointWorldCoord longitude latitude = PointWorldCoord_raw (QPointF longitude latitude)"

definition PointWorldPx :: "real \<Rightarrow> real \<Rightarrow> PointWorldPx" where
  "PointWorldPx x y = PointWorldPx_raw (QPointF x y)"

definition px_x :: "PointWorldPx \<Rightarrow> real" where
  "px_x p = xp (rawPointPx p)"

definition px_y :: "PointWorldPx \<Rightarrow> real" where
  "px_y p = yp (rawPointPx p)"

text \<open>\<open>point_px + PointPx(dx, dy)\<close>.\<close>

definition PointWorldPx_add :: "PointWorldPx \<Rightarrow> real \<times> real \<Rightarrow> PointWorldPx" where
  "PointWorldPx_add p d = PointWorldPx (px_x p + fst d) (px_y p + snd d)"

text \<open>Modelled from the spec: \<open>operator!=\<close> of \<open>PointWorldCoord\<close> is declared in a header
  that is not among the sources; the spec describes it as exact equality on both
  components.\<close>

definition coord_neq :: "PointWorldCoord \<Rightarrow> PointWorldCoord \<Rightarrow> bool" where
  "coord_neq a b =
     (xp (rawPointCoord a) \<noteq> xp (rawPointCoord b) \<or> yp (rawPointCoord a) \<noteq> yp (rawPointCoord b))"

text \<open>A pixmap, as far as the code looks at it: its size, and a key standing for its
  contents. A pen is an opaque style object.\<close>

datatype QPixmap = QPixmap (pixmap_size: QSize) (cacheKey: nat)

datatype QPen = QPen nat

datatype QVariant = QVariant_null | QVariant_string string

definition isNull :: "QVariant \<Rightarrow> bool" where
  "isNull v = (case v of QVariant_null \<Rightarrow> True | QVariant_string _ \<Rightarrow> False)"

definition toString :: "QVariant \<Rightarrow> string" where
  "toString v = (case v of QVariant_null \<Rightarrow> [] | QVariant_string s \<Rightarrow> s)"

datatype AlignmentType =
  TopLeft | Top | TopRight | Left | Middle | Right | BottomLeft | Bottom | BottomRight

section \<open>Notifications and canvas calls\<close>

text \<open>
  A Qt signal emission is an effect; the model returns the emitted signals as a list, in
  the order of the \<open>emit\<close> statements. The argument \<open>this\<close> of \<open>positionChanged\<close> and
  \<open>geometryClicked\<close> is the identity of the emitting object. Calls on the \<open>QPainter\<close>
  are returned the same way.
\<close>

datatype Signal = requestRedraw | positionChanged nat | geometryClicked nat

datatype PainterCall =
    Painter_drawPixmap QRectF QPixmap QRectF
  | Painter_drawText QPointF string
  | Painter_setPen QPen
  | Painter_drawPoint QPointF

section \<open>The Geometry base class and GeometryPoint\<close>

text \<open>
  \<open>Geometry\<close> is the base class; its implementation is not among the sources. The record
  holds the members and accessor results that \<open>GeometryPoint.cpp\<close> reads:
  \<open>this_id\<close> is the object's identity, \<open>pen\<close> is what \<open>getPen()\<close> returns and
  \<open>m_metadata\<close> is what \<open>getMetadata\<close> looks keys up in.
\<close>

record Geometry =
  this_id :: nat
  m_zoom_minimum :: int
  m_zoom_maximum :: int
  pen :: QPen
  m_metadata :: "(string \<times> QVariant) list"
  m_metadata_displayed_key :: string
  m_metadata_displayed_zoom_minimum :: int
  m_metadata_displayed_alignment_offset_px :: real

record GeometryPoint = Geometry +
  m_point_coord :: PointWorldCoord
  m_pixmap :: "QPixmap option"
  m_alignment_type :: AlignmentType
  m_base_zoom :: int
  m_base_size_px :: QSizeF
  m_draw_minimum_px :: QSizeF
  m_draw_maximum_px :: QSizeF

text \<open>Modelled from the spec: \<open>Geometry::isVisible\<close> is not among the sources; the spec gives
  it as \<open>zoom_minimum \<le> zoom \<le> zoom_maximum\<close>.\<close>

definition isVisible :: "'a Geometry_scheme \<Rightarrow> int \<Rightarrow> bool" where
  "isVisible g controller_zoom =
     (m_zoom_minimum g \<le> controller_zoom \<and> controller_zoom \<le> m_zoom_maximum g)"

text \<open>Modelled from the spec: \<open>Geometry::getMetadata\<close> is not among the sources; a key
  without a value yields a null variant.\<close>

definition getMetadata :: "'a Geometry_scheme \<Rightarrow> string \<Rightarrow> QVariant" where
  "getMetadata g key = (case map_of (m_metadata g) key of None \<Rightarrow> QVariant_null | Some v \<Rightarrow> v)"

text \<open>
  The collaborators that \<open>GeometryPoint.cpp\<close> calls and that live outside it are
  parameters of the model: the two conversions of the \<open>projection::get()\<close> singleton,
  \<open>Geometry::calculateTopLeftPoint\<close>, and Qt's \<open>QRectF::intersects\<close> and
  \<open>QRectF::contains\<close>.
\<close>

record Externals =
  toPointWorldPx :: "PointWorldCoord \<Rightarrow> int \<Rightarrow> PointWorldPx"
  toPointWorldCoord :: "PointWorldPx \<Rightarrow> int \<Rightarrow> PointWorldCoord"
  calculateTopLeftPoint :: "PointWorldPx \<Rightarrow> AlignmentType \<Rightarrow> QSizeF \<Rightarrow> PointWorldPx"
  intersects :: "QRectF \<Rightarrow> QRectF \<Rightarrow> bool"
  contains :: "QRectF \<Rightarrow> QPointF \<Rightarrow> bool"

subsection \<open>Construction\<close>

text \<open>
  Both constructors pass \<open>zoom_minimum\<close> and \<open>zoom_maximum\<close> to the constructor of
  \<open>Geometry\<close>; \<open>base\<close> is the base-class part that constructor has built. The shared
  pointer \<open>m_pixmap\<close> is \<open>Some\<close> pixmap, or \<open>None\<close> for \<open>nullptr\<close>.
\<close>

definition GeometryPoint_new :: "Geometry \<Rightarrow> PointWorldCoord \<Rightarrow> QPixmap \<Rightarrow> GeometryPoint" where
  "GeometryPoint_new base point_coord pixmap =
     \<lparr> this_id = this_id base,
       m_zoom_minimum = m_zoom_minimum base,
       m_zoom_maximum = m_zoom_maximum base,
       pen = pen base,
       m_metadata = m_metadata base,
       m_metadata_displayed_key = m_metadata_displayed_key base,
       m_metadata_displayed_zoom_minimum = m_metadata_displayed_zoom_minimum base,
       m_metadata_displayed_alignment_offset_px = m_metadata_displayed_alignment_offset_px base,
       m_point_coord = point_coord,
       m_pixmap = Some pixmap,
       m_alignment_type = Middle,
       m_base_zoom = - 1,
       m_base_size_px = toQSizeF (pixmap_size pixmap),
       m_draw_minimum_px = QSizeF (- 1) (- 1),
       m_draw_maximum_px = QSizeF (- 1) (- 1) \<rparr>"

definition GeometryPoint_new_lonlat :: "Geometry \<Rightarrow> real \<Rightarrow> real \<Rightarrow> QPixmap \<Rightarrow> GeometryPoint" where
  "GeometryPoint_new_lonlat base longitude latitude pixmap =
     GeometryPoint_new base (PointWorldCoord longitude latitude) pixmap"

subsection \<open>Mutators\<close>

text \<open>Every mutator returns the updated object and the signals it emitted.\<close>

definition coord :: "GeometryPoint \<Rightarrow> PointWorldCoord" where
  "coord g = m_point_coord g"

definition setCoord :: "GeometryPoint \<Rightarrow> PointWorldCoord \<Rightarrow> GeometryPoint \<times> Signal list" where
  "setCoord g point =
     (if coord_neq (m_point_coord g) point
      then (g\<lparr>m_point_coord := point\<rparr>, [requestRedraw, positionChanged (this_id g)])
      else (g, []))"

text \<open>\<open>setPixmap(const std::shared_ptr<QPixmap>&)\<close>.\<close>

definition setPixmap :: "GeometryPoint \<Rightarrow> QPixmap option \<Rightarrow> GeometryPoint \<times> Signal list" where
  "setPixmap g pixmap =
     (let g1 = g\<lparr>m_pixmap := pixmap\<rparr>;
          g2 = (case pixmap of
                  Some p \<Rightarrow> g1\<lparr>m_base_size_px := toQSizeF (pixmap_size p)\<rparr>
                | None \<Rightarrow> g1)
      in (g2, [requestRedraw]))"

text \<open>\<open>setPixmap(const QPixmap&)\<close>.\<close>

definition setPixmap_value :: "GeometryPoint \<Rightarrow> QPixmap \<Rightarrow> GeometryPoint \<times> Signal list" where
  "setPixmap_value g pixmap =
     (g\<lparr>m_pixmap := Some pixmap, m_base_size_px := toQSizeF (pixmap_size pixmap)\<rparr>,
      [requestRedraw])"

definition setAlignmentType :: "GeometryPoint \<Rightarrow> AlignmentType \<Rightarrow> GeometryPoint \<times> Signal list" where
  "setAlignmentType g alignment_type = (g\<lparr>m_alignment_type := alignment_type\<rparr>, [])"

definition setBaseZoom :: "GeometryPoint \<Rightarrow> int \<Rightarrow> GeometryPoint \<times> Signal list" where
  "setBaseZoom g zoom = (g\<lparr>m_base_zoom := zoom\<rparr>, [])"

definition setDrawMinimumPx :: "GeometryPoint \<Rightarrow> QSizeF \<Rightarrow> GeometryPoint \<times> Signal list" where
  "setDrawMinimumPx g size_px = (g\<lparr>m_draw_minimum_px := size_px\<rparr>, [])"

definition setDrawMaximumPx :: "GeometryPoint \<Rightarrow> QSizeF \<Rightarrow> GeometryPoint \<times> Signal list" where
  "setDrawMaximumPx g size_px = (g\<lparr>m_draw_maximum_px := size_px\<rparr>, [])"

subsection \<open>Sizing\<close>

text \<open>
  \<open>calculateGeometrySizePx\<close>: the scaling by the zoom difference (lines 304 to 308;
  \<open>std::pow(2.0, zoom_difference)\<close> is \<open>2 powi zoom_difference\<close>), the four clamps in the
  order of the source (lines 311 to 336), and the function that guards and composes them.
\<close>

definition scaleToZoom :: "GeometryPoint \<Rightarrow> int \<Rightarrow> QSizeF \<Rightarrow> QSizeF" where
  "scaleToZoom g controller_zoom return_size_px =
     (let zoom_difference = m_base_zoom g - controller_zoom;
          s1 = setHeight return_size_px (height (m_base_size_px g) / 2 powi zoom_difference);
          s2 = setWidth s1 (width (m_base_size_px g) / 2 powi zoom_difference)
      in s2)"

definition clampDrawSize :: "GeometryPoint \<Rightarrow> QSizeF \<Rightarrow> QSizeF" where
  "clampDrawSize g return_size_px =
     (let s1 = (if height (m_draw_minimum_px g) > - 1
                then setHeight return_size_px (max (height return_size_px) (height (m_draw_minimum_px g)))
                else return_size_px);
          s2 = (if width (m_draw_minimum_px g) > - 1
                then setWidth s1 (max (width s1) (width (m_draw_minimum_px g)))
                else s1);
          s3 = (if height (m_draw_maximum_px g) > - 1
                then setHeight s2 (min (height s2) (height (m_draw_maximum_px g)))
                else s2);
          s4 = (if width (m_draw_maximum_px g) > - 1
                then setWidth s3 (min (width s3) (width (m_draw_maximum_px g)))
                else s3)
      in s4)"

definition calculateGeometrySizePx :: "GeometryPoint \<Rightarrow> int \<Rightarrow> QSizeF" where
  "calculateGeometrySizePx g controller_zoom =
     (case m_pixmap g of
        None \<Rightarrow> QSizeF 1 1
      | Some p \<Rightarrow>
          if isEmpty (pixmap_size p) = False
          then (let return_size_px = toQSizeF (pixmap_size p)
                in if m_base_zoom g > 0
                   then clampDrawSize g (scaleToZoom g controller_zoom return_size_px)
                   else return_size_px)
          else QSizeF 1 1)"

subsection \<open>Bounding box, hit test and drawing\<close>

definition boundingBox :: "Externals \<Rightarrow> GeometryPoint \<Rightarrow> int \<Rightarrow> QRectF" where
  "boundingBox ext g controller_zoom =
     (let point_px = toPointWorldPx ext (m_point_coord g) controller_zoom;
          object_size_px = calculateGeometrySizePx g controller_zoom;
          top_left_point_px = calculateTopLeftPoint ext point_px (m_alignment_type g) object_size_px;
          bottom_right_point_px =
            PointWorldPx (px_x top_left_point_px + width object_size_px)
                         (px_y top_left_point_px + height object_size_px)
      in QRectF_corners
           (rawPointCoord (toPointWorldCoord ext top_left_point_px controller_zoom))
           (rawPointCoord (toPointWorldCoord ext bottom_right_point_px controller_zoom)))"

text \<open>
  \<open>touches\<close>: the \<open>QGraphicsItem\<close> argument is used through its \<open>contains\<close> test only,
  so the model takes that test. The result is the returned flag and the emitted signals.
\<close>

definition touches :: "Externals \<Rightarrow> GeometryPoint \<Rightarrow> (QPointF \<Rightarrow> bool) \<Rightarrow> int \<Rightarrow> bool \<times> Signal list" where
  "touches ext g area_px_contains controller_zoom =
     (if isVisible g controller_zoom
      then (let point_px = toPointWorldPx ext (m_point_coord g) controller_zoom
            in if area_px_contains (rawPointPx point_px)
               then (True, [geometryClicked (this_id g)])
               else (False, []))
      else (False, []))"

text \<open>The label test and the two branches of \<open>draw\<close>; each returns the painter calls it
  issues, in order.\<close>

definition showsMetadata :: "GeometryPoint \<Rightarrow> int \<Rightarrow> bool" where
  "showsMetadata g controller_zoom =
     (controller_zoom \<ge> m_metadata_displayed_zoom_minimum g
      \<and> isNull (getMetadata g (m_metadata_displayed_key g)) = False)"

definition drawAsPixmap :: "Externals \<Rightarrow> GeometryPoint \<Rightarrow> QPixmap \<Rightarrow> QRectF \<Rightarrow> int \<Rightarrow> PainterCall list" where
  "drawAsPixmap ext g p backbuffer_rect_px controller_zoom =
     (let point_px = toPointWorldPx ext (m_point_coord g) controller_zoom;
          pixmap_size_px = calculateGeometrySizePx g controller_zoom;
          pixmap_rect =
            QRectF_sized
              (rawPointPx (calculateTopLeftPoint ext point_px (m_alignment_type g) pixmap_size_px))
              pixmap_size_px
      in if intersects ext backbuffer_rect_px pixmap_rect
         then Painter_drawPixmap pixmap_rect p QRectF_null #
              (if showsMetadata g controller_zoom
               then [Painter_drawText
                       (QPointF_add (topRight pixmap_rect)
                          (QPointF (m_metadata_displayed_alignment_offset_px g)
                                   (- m_metadata_displayed_alignment_offset_px g)))
                       (toString (getMetadata g (m_metadata_displayed_key g)))]
               else [])
         else [])"

definition drawAsPoint :: "Externals \<Rightarrow> GeometryPoint \<Rightarrow> QRectF \<Rightarrow> int \<Rightarrow> PainterCall list" where
  "drawAsPoint ext g backbuffer_rect_px controller_zoom =
     (let point_px = toPointWorldPx ext (m_point_coord g) controller_zoom
      in if contains ext backbuffer_rect_px (rawPointPx point_px)
         then Painter_setPen (pen g) #
              Painter_drawPoint (rawPointPx point_px) #
              (if showsMetadata g controller_zoom
               then [Painter_drawText
                       (rawPointPx
                          (PointWorldPx_add point_px
                             (m_metadata_displayed_alignment_offset_px g,
                              - m_metadata_displayed_alignment_offset_px g)))
                       (toString (getMetadata g (m_metadata_displayed_key g)))]
               else [])
         else [])"

definition draw :: "Externals \<Rightarrow> GeometryPoint \<Rightarrow> QRectF \<Rightarrow> int \<Rightarrow> PainterCall list" where
  "draw ext g backbuffer_rect_px controller_zoom =
     (if isVisible g controller_zoom
      then (case m_pixmap g of
              None \<Rightarrow> drawAsPoint ext g backbuffer_rect_px controller_zoom
            | Some p \<Rightarrow>
                if isEmpty (pixmap_size p) = False
                then drawAsPixmap ext g p backbuffer_rect_px controller_zoom
                else drawAsPoint ext g backbuffer_rect_px controller_zoom)
      else [])"

section \<open>Example objects\<close>

text \<open>
  Concrete collaborators and objects on which the model is evaluated. The example
  projection scales by \<open>2 ^ zoom\<close>; the example alignment follows the offset table of the
  spec, \<open>(- width * fx, - height * fy)\<close>; the example rectangle tests are the closed
  interval tests.
\<close>

definition example_fx :: "AlignmentType \<Rightarrow> real" where
  "example_fx a =
     (case a of TopLeft \<Rightarrow> 0 | Left \<Rightarrow> 0 | BottomLeft \<Rightarrow> 0
              | Top \<Rightarrow> 1 / 2 | Middle \<Rightarrow> 1 / 2 | Bottom \<Rightarrow> 1 / 2
              | TopRight \<Rightarrow> 1 | Right \<Rightarrow> 1 | BottomRight \<Rightarrow> 1)"

definition example_fy :: "AlignmentType \<Rightarrow> real" where
  "example_fy a =
     (case a of TopLeft \<Rightarrow> 0 | Top \<Rightarrow> 0 | TopRight \<Rightarrow> 0
              | Left \<Rightarrow> 1 / 2 | Middle \<Rightarrow> 1 / 2 | Right \<Rightarrow> 1 / 2
              | BottomLeft \<Rightarrow> 1 | Bottom \<Rightarrow> 1 | BottomRight \<Rightarrow> 1)"

definition example_contains :: "QRectF \<Rightarrow> QPointF \<Rightarrow> bool" where
  "example_contains r p =
     (rect_x r \<le> xp p \<and> xp p \<le> rect_x r + rect_w r \<and>
      rect_y r \<le> yp p \<and> yp p \<le> rect_y r + rect_h r)"

definition example_intersects :: "QRectF \<Rightarrow> QRectF \<Rightarrow> bool" where
  "example_intersects r s =
     (rect_x r < rect_x s + rect_w s \<and> rect_x s < rect_x r + rect_w r \<and>
      rect_y r < rect_y s + rect_h s \<and> rect_y s < rect_y r + rect_h r)"

definition example_ext :: Externals where
  "example_ext =
     \<lparr> toPointWorldPx = (\<lambda>c z. PointWorldPx (xp (rawPointCoord c) * 2 powi z) (yp (rawPointCoord c) * 2 powi z)),
       toPointWorldCoord = (\<lambda>p z. PointWorldCoord (px_x p / 2 powi z) (px_y p / 2 powi z)),
       calculateTopLeftPoint =
         (\<lambda>p a s. PointWorldPx (px_x p - width s * example_fx a) (px_y p - height s * example_fy a)),
       intersects = example_intersects,
       contains = example_contains \<rparr>"

definition example_base :: Geometry where
  "example_base =
     \<lparr> this_id = 7, m_zoom_minimum = 0, m_zoom_maximum = 17, pen = QPen 0,
       m_metadata = [(''name'', QVariant_string ''cafe'')],
       m_metadata_displayed_key = ''name'',
       m_metadata_displayed_zoom_minimum = 10,
       m_metadata_displayed_alignment_offset_px = 5 \<rparr>"

text \<open>A point at longitude 3, latitude 4 with a pixmap of the given size.\<close>

definition example_point :: "int \<Rightarrow> int \<Rightarrow> GeometryPoint" where
  "example_point w h = GeometryPoint_new_lonlat example_base 3 4 (QPixmap (QSize w h) 1)"

text \<open>The 32 by 32 example after \<open>setBaseZoom(10)\<close>, and the 100 by 100 example after
  \<open>setBaseZoom(10)\<close> and \<open>setDrawMinimumPx(QSizeF(20, 20))\<close>.\<close>

definition example_scaled :: GeometryPoint where
  "example_scaled = fst (setBaseZoom (example_point 32 32) 10)"

definition example_clamped :: GeometryPoint where
  "example_clamped =
     fst (setDrawMinimumPx (fst (setBaseZoom (example_point 100 100) 10)) (QSizeF 20 20))"

text \<open>The 32 by 32 example with base zoom left unset, after \<open>setDrawMinimumPx(QSizeF(100, 100))\<close>
  and \<open>setDrawMaximumPx(QSizeF(200, 200))\<close>.\<close>

definition example_unscaled :: GeometryPoint where
  "example_unscaled =
     fst (setDrawMaximumPx (fst (setDrawMinimumPx (example_point 32 32) (QSizeF 100 100)))
            (QSizeF 200 200))"

text \<open>The 32 by 32 example whose pixmap object was afterwards assigned a 64 by 64 pixmap
  through the reference that \<open>getPixmap()\<close> returns (or through the shared pointer that
  \<open>setPixmap\<close> keeps): the image changes, the recorded base size does not.\<close>

definition example_stale :: GeometryPoint where
  "example_stale = (example_point 32 32)\<lparr>m_pixmap := Some (QPixmap (QSize 64 64) 2)\<rparr>"

text \<open>A clicked area and a viewport for the examples: the points of a rectangle.\<close>

definition example_area :: "QRectF \<Rightarrow> QPointF \<Rightarrow> bool" where
  "example_area r = (\<lambda>p. example_contains r p)"

section \<open>The steps of the bounding box, as the specification words them\<close>

text \<open>
  For comparison with \<open>boundingBox\<close> above, and written without any of the functions that
  model the code's sizing. The zoom-scaled size is (1,1) when there is no image or the
  image is empty; the size of the image while no base zoom is set (the code takes every
  base zoom that is not above 0 as unset); and otherwise the base size divided by
  \<open>2 ^ (base_zoom - zoom)\<close>, each component raised to the minimum draw size and then
  lowered to the maximum draw size where these are configured (a component of \<open>-1\<close> or
  less is not configured). Then: the anchor in pixels, the aligned top-left pixel for that
  size, the bottom-right pixel as top-left plus (width, height), and the rectangle of the
  two corners converted back to world coordinates.
\<close>

definition spec_clamp :: "real \<Rightarrow> real \<Rightarrow> real \<Rightarrow> real" where
  "spec_clamp minimum maximum v =
     (let raised = (if minimum > - 1 then max v minimum else v)
      in if maximum > - 1 then min raised maximum else raised)"

definition spec_scaled_size :: "GeometryPoint \<Rightarrow> int \<Rightarrow> QSizeF" where
  "spec_scaled_size g zoom =
     (case m_pixmap g of
        None \<Rightarrow> QSizeF 1 1
      | Some p \<Rightarrow>
          if wd (pixmap_size p) \<le> 0 \<or> ht (pixmap_size p) \<le> 0 then QSizeF 1 1
          else if m_base_zoom g \<le> 0
          then QSizeF (real_of_int (wd (pixmap_size p))) (real_of_int (ht (pixmap_size p)))
          else QSizeF
                 (spec_clamp (width (m_draw_minimum_px g)) (width (m_draw_maximum_px g))
                    (width (m_base_size_px g) / 2 powi (m_base_zoom g - zoom)))
                 (spec_clamp (height (m_draw_minimum_px g)) (height (m_draw_maximum_px g))
                    (height (m_base_size_px g) / 2 powi (m_base_zoom g - zoom))))"

definition spec_anchor_px :: "Externals \<Rightarrow> GeometryPoint \<Rightarrow> int \<Rightarrow> PointWorldPx" where
  "spec_anchor_px ext g zoom = toPointWorldPx ext (m_point_coord g) zoom"

definition spec_top_left_px :: "Externals \<Rightarrow> GeometryPoint \<Rightarrow> int \<Rightarrow> PointWorldPx" where
  "spec_top_left_px ext g zoom =
     calculateTopLeftPoint ext (spec_anchor_px ext g zoom) (m_alignment_type g)
       (spec_scaled_size g zoom)"

definition spec_bottom_right_px :: "Externals \<Rightarrow> GeometryPoint \<Rightarrow> int \<Rightarrow> PointWorldPx" where
  "spec_bottom_right_px ext g zoom =
     PointWorldPx_raw
       (QPointF (xp (rawPointPx (spec_top_left_px ext g zoom)) + width (spec_scaled_size g zoom))
                (yp (rawPointPx (spec_top_left_px ext g zoom)) + height (spec_scaled_size g zoom)))"

definition boundingBox_spec :: "Externals \<Rightarrow> GeometryPoint \<Rightarrow> int \<Rightarrow> QRectF" where
  "boundingBox_spec ext g zoom =
     QRectF_corners
       (rawPointCoord (toPointWorldCoord ext (spec_top_left_px ext g zoom) zoom))
       (rawPointCoord (toPointWorldCoord ext (spec_bottom_right_px ext g zoom) zoom))"

section \<open>Auxiliary facts\<close>

lemmas size_defs =
  calculateGeometrySizePx_def scaleToZoom_def clampDrawSize_def setHeight_def setWidth_def Let_def

lemmas example_defs =
  example_point_def example_base_def GeometryPoint_new_lonlat_def GeometryPoint_new_def
  PointWorldCoord_def example_scaled_def example_clamped_def
  setBaseZoom_def setDrawMinimumPx_def setDrawMaximumPx_def toQSizeF_def isEmpty_def

lemma coord_neq_iff: "coord_neq a b \<longleftrightarrow> a \<noteq> b"
  by (cases a, cases b) (auto simp: coord_neq_def QPointF.expand)

lemma example_anchor_10:
  "rawPointPx (toPointWorldPx example_ext (m_point_coord example_scaled) 10) = QPointF 3072 4096"
  by (simp add: example_defs example_ext_def PointWorldPx_def)

lemma example_visible: "isVisible example_scaled 10" "\<not> isVisible example_scaled 18"
  by (simp_all add: isVisible_def example_defs)

lemma example_unscaled_fields:
  "m_pixmap example_unscaled = Some (QPixmap (QSize 32 32) 1)"
  "m_base_zoom example_unscaled = - 1"
  "m_base_size_px example_unscaled = QSizeF 32 32"
  "m_draw_minimum_px example_unscaled = QSizeF 100 100"
  "m_draw_maximum_px example_unscaled = QSizeF 200 200"
  by (simp_all add: example_unscaled_def example_defs)

lemma example_pixmap_32: 
  "isEmpty (pixmap_size (QPixmap (QSize 32 32) 1)) = False"
  "toQSizeF (pixmap_size (QPixmap (QSize 32 32) 1)) = QSizeF 32 32"
  by (simp_all add: isEmpty_def toQSizeF_def)

lemma example_ext_sel:
  "toPointWorldPx example_ext c z
     = PointWorldPx (xp (rawPointCoord c) * 2 powi z) (yp (rawPointCoord c) * 2 powi z)"
  "toPointWorldCoord example_ext q z = PointWorldCoord (px_x q / 2 powi z) (px_y q / 2 powi z)"
  "calculateTopLeftPoint example_ext q a s
     = PointWorldPx (px_x q - width s * example_fx a) (px_y q - height s * example_fy a)"
  "intersects example_ext = example_intersects"
  "contains example_ext = example_contains"
  by (simp_all add: example_ext_def)

section \<open>Sizing at a base zoom\<close>

text \<open>
  Claim C1, as the code has it. For a GeometryPoint with a non-empty image, base zoom 10,
  base size (32,32) and no minimum or maximum draw size configured,
  \<open>calculateGeometrySizePx\<close> returns base size divided by \<open>2 ^ (base_zoom - zoom)\<close>: that is
  (32,32) at zoom 10, (64,64) at zoom 11 (the difference is \<open>-1\<close>, so the size doubles) and
  (16,16) at zoom 9 (the difference is \<open>1\<close>, so the size halves).
\<close>

theorem calculateGeometrySizePx_base_zoom_10:
  assumes "m_pixmap g = Some p" and "isEmpty (pixmap_size p) = False"
    and "m_base_zoom g = 10" and "m_base_size_px g = QSizeF 32 32"
    and "m_draw_minimum_px g = QSizeF (- 1) (- 1)"
    and "m_draw_maximum_px g = QSizeF (- 1) (- 1)"
  shows "calculateGeometrySizePx g zoom = QSizeF (32 / 2 powi (10 - zoom)) (32 / 2 powi (10 - zoom))
    \<and> calculateGeometrySizePx g 10 = QSizeF 32 32
    \<and> calculateGeometrySizePx g 11 = QSizeF 64 64
    \<and> calculateGeometrySizePx g 9 = QSizeF 16 16"
  using assms by (simp add: size_defs)

text \<open>The theorem at the 32 by 32 example point.\<close>

theorem calculateGeometrySizePx_base_zoom_10_witness:
  "m_pixmap example_scaled = Some (QPixmap (QSize 32 32) 1)
   \<and> isEmpty (pixmap_size (QPixmap (QSize 32 32) 1)) = False
   \<and> m_base_zoom example_scaled = 10
   \<and> m_base_size_px example_scaled = QSizeF 32 32
   \<and> m_draw_minimum_px example_scaled = QSizeF (- 1) (- 1)
   \<and> m_draw_maximum_px example_scaled = QSizeF (- 1) (- 1)
   \<and> calculateGeometrySizePx example_scaled 10 = QSizeF 32 32
   \<and> calculateGeometrySizePx example_scaled 11 = QSizeF 64 64
   \<and> calculateGeometrySizePx example_scaled 9 = QSizeF 16 16"
proof -
  have h1: "m_pixmap example_scaled = Some (QPixmap (QSize 32 32) 1)"
    by (simp add: example_defs)
  have h2: "isEmpty (pixmap_size (QPixmap (QSize 32 32) 1)) = False"
    by (simp add: isEmpty_def)
  have h3: "m_base_zoom example_scaled = 10"
    by (simp add: example_defs)
  have h4: "m_base_size_px example_scaled = QSizeF 32 32"
    by (simp add: example_defs)
  have h5: "m_draw_minimum_px example_scaled = QSizeF (- 1) (- 1)"
    by (simp add: example_defs)
  have h6: "m_draw_maximum_px example_scaled = QSizeF (- 1) (- 1)"
    by (simp add: example_defs)
  from calculateGeometrySizePx_base_zoom_10 [OF h1 h2 h3 h4 h5 h6, of 10] h1 h2 h3 h4 h5 h6
  show ?thesis by blast
qed

text \<open>
  The two off-base examples in the order the specification lists them, (16,16) at zoom 11
  and (64,64) at zoom 9, are not what the code returns: the example point is sized
  (64,64) at zoom 11 and (16,16) at zoom 9.
\<close>

theorem calculateGeometrySizePx_base_zoom_10_counterexample:
  "calculateGeometrySizePx example_scaled 11 = QSizeF 64 64
   \<and> calculateGeometrySizePx example_scaled 11 \<noteq> QSizeF 16 16
   \<and> calculateGeometrySizePx example_scaled 9 = QSizeF 16 16
   \<and> calculateGeometrySizePx example_scaled 9 \<noteq> QSizeF 64 64"
  by (simp add: example_defs size_defs)

section \<open>The minimum clamp\<close>

text \<open>
  Claim C2, as the code has it. For a GeometryPoint with a non-empty image, base size
  (100,100), base zoom 10, minimum draw size (20,20) and no maximum draw size: at zoom 15
  the zoom difference is \<open>-5\<close>, the unclamped size is \<open>100 * 32 = 3200\<close> per component, and
  the minimum clamp leaves it, so the result is (3200,3200). The unclamped value
  \<open>100 / 32 = 3.125\<close> that the minimum clamp raises to (20,20) arises at zoom 5, where the
  difference is \<open>5\<close>.
\<close>

theorem calculateGeometrySizePx_minimum_clamp:
  assumes "m_pixmap g = Some p" and "isEmpty (pixmap_size p) = False"
    and "m_base_zoom g = 10" and "m_base_size_px g = QSizeF 100 100"
    and "m_draw_minimum_px g = QSizeF 20 20"
    and "m_draw_maximum_px g = QSizeF (- 1) (- 1)"
  shows "scaleToZoom g 15 (toQSizeF (pixmap_size p)) = QSizeF 3200 3200
    \<and> calculateGeometrySizePx g 15 = QSizeF 3200 3200
    \<and> scaleToZoom g 5 (toQSizeF (pixmap_size p)) = QSizeF 3.125 3.125
    \<and> calculateGeometrySizePx g 5 = QSizeF 20 20"
  using assms by (simp add: size_defs)

text \<open>The theorem at the 100 by 100 example point.\<close>

theorem calculateGeometrySizePx_minimum_clamp_witness:
  "m_pixmap example_clamped = Some (QPixmap (QSize 100 100) 1)
   \<and> isEmpty (pixmap_size (QPixmap (QSize 100 100) 1)) = False
   \<and> m_base_zoom example_clamped = 10
   \<and> m_base_size_px example_clamped = QSizeF 100 100
   \<and> m_draw_minimum_px example_clamped = QSizeF 20 20
   \<and> m_draw_maximum_px example_clamped = QSizeF (- 1) (- 1)
   \<and> calculateGeometrySizePx example_clamped 15 = QSizeF 3200 3200
   \<and> scaleToZoom example_clamped 5 (toQSizeF (QSize 100 100)) = QSizeF 3.125 3.125
   \<and> calculateGeometrySizePx example_clamped 5 = QSizeF 20 20"
proof -
  have h1: "m_pixmap example_clamped = Some (QPixmap (QSize 100 100) 1)"
    by (simp add: example_defs)
  have h2: "isEmpty (pixmap_size (QPixmap (QSize 100 100) 1)) = False"
    by (simp add: isEmpty_def)
  have h3: "m_base_zoom example_clamped = 10"
    by (simp add: example_defs)
  have h4: "m_base_size_px example_clamped = QSizeF 100 100"
    by (simp add: example_defs)
  have h5: "m_draw_minimum_px example_clamped = QSizeF 20 20"
    by (simp add: example_defs)
  have h6: "m_draw_maximum_px example_clamped = QSizeF (- 1) (- 1)"
    by (simp add: example_defs)
  from calculateGeometrySizePx_minimum_clamp [OF h1 h2 h3 h4 h5 h6] h1 h2 h3 h4 h5 h6
  show ?thesis by simp
qed

text \<open>
  At zoom 15 the example point is neither scaled to 3.125 nor clamped to (20,20): both
  the unclamped and the final size are (3200,3200).
\<close>

theorem calculateGeometrySizePx_minimum_clamp_counterexample:
  "scaleToZoom example_clamped 15 (toQSizeF (QSize 100 100)) = QSizeF 3200 3200
   \<and> scaleToZoom example_clamped 15 (toQSizeF (QSize 100 100)) \<noteq> QSizeF 3.125 3.125
   \<and> calculateGeometrySizePx example_clamped 15 = QSizeF 3200 3200
   \<and> calculateGeometrySizePx example_clamped 15 \<noteq> QSizeF 20 20"
  by (simp add: example_defs size_defs)

section \<open>Hit test\<close>

text \<open>
  Claim C3. \<open>touches\<close> returns false, and emits nothing, when the geometry is not visible
  at the given zoom. When it is visible, the result is true exactly when the supplied
  pixel-space area contains the projected anchor pixel (the size of the drawn image plays
  no part), and the emitted signals are exactly one \<open>geometryClicked(this)\<close> on a hit and
  none on a miss.
\<close>

theorem touches_hit_test:
  "(\<not> isVisible g zoom \<longrightarrow> touches ext g area_px zoom = (False, []))
   \<and> (isVisible g zoom \<longrightarrow>
        fst (touches ext g area_px zoom)
          = area_px (rawPointPx (toPointWorldPx ext (m_point_coord g) zoom))
        \<and> snd (touches ext g area_px zoom)
          = (if area_px (rawPointPx (toPointWorldPx ext (m_point_coord g) zoom))
             then [geometryClicked (this_id g)] else []))"
  by (simp add: touches_def Let_def)

text \<open>The example point: invisible at zoom 18; at zoom 10 its anchor pixel is (3072, 4096),
  inside the first area and outside the second.\<close>

theorem touches_hit_test_witness:
  "\<not> isVisible example_scaled 18
   \<and> touches example_ext example_scaled (example_area (QRectF 0 0 4000 5000)) 18 = (False, [])
   \<and> isVisible example_scaled 10
   \<and> example_area (QRectF 0 0 4000 5000)
        (rawPointPx (toPointWorldPx example_ext (m_point_coord example_scaled) 10))
   \<and> touches example_ext example_scaled (example_area (QRectF 0 0 4000 5000)) 10
        = (True, [geometryClicked 7])
   \<and> \<not> example_area (QRectF 0 0 40 50)
        (rawPointPx (toPointWorldPx example_ext (m_point_coord example_scaled) 10))
   \<and> touches example_ext example_scaled (example_area (QRectF 0 0 40 50)) 10 = (False, [])"
proof -
  have hit: "example_area (QRectF 0 0 4000 5000)
      (rawPointPx (toPointWorldPx example_ext (m_point_coord example_scaled) 10))"
    by (simp add: example_anchor_10 example_area_def example_contains_def)
  have miss: "\<not> example_area (QRectF 0 0 40 50)
      (rawPointPx (toPointWorldPx example_ext (m_point_coord example_scaled) 10))"
    by (simp add: example_anchor_10 example_area_def example_contains_def)
  have id: "this_id example_scaled = 7"
    by (simp add: example_defs)
  from touches_hit_test [of example_scaled 18 example_ext "example_area (QRectF 0 0 4000 5000)"]
    touches_hit_test [of example_scaled 10 example_ext "example_area (QRectF 0 0 4000 5000)"]
    touches_hit_test [of example_scaled 10 example_ext "example_area (QRectF 0 0 40 50)"]
    example_visible hit miss id
  show ?thesis by (simp add: prod_eq_iff)
qed

section \<open>Moving the point\<close>

text \<open>
  Claim C4. \<open>setCoord\<close> with a value equal to the current coordinate (both components
  equal) leaves the object unchanged and emits nothing. With a different value it stores
  the new coordinate and emits exactly two signals, in this order: \<open>requestRedraw()\<close>,
  then \<open>positionChanged(this)\<close>. Hence a second call with the same value emits nothing.
\<close>

theorem setCoord_notifications:
  "(point = m_point_coord g \<longrightarrow> setCoord g point = (g, []))
   \<and> (point \<noteq> m_point_coord g \<longrightarrow>
        setCoord g point
          = (g\<lparr>m_point_coord := point\<rparr>, [requestRedraw, positionChanged (this_id g)]))
   \<and> coord (fst (setCoord g point)) = point
   \<and> setCoord (fst (setCoord g point)) point = (fst (setCoord g point), [])"
  by (auto simp: setCoord_def coord_neq_iff coord_def)

text \<open>The example point sits at (3, 4): setting (3, 4) is silent, setting (3, 5) notifies
  once.\<close>

theorem setCoord_notifications_witness:
  "PointWorldCoord 3 4 = m_point_coord example_scaled
   \<and> setCoord example_scaled (PointWorldCoord 3 4) = (example_scaled, [])
   \<and> PointWorldCoord 3 5 \<noteq> m_point_coord example_scaled
   \<and> setCoord example_scaled (PointWorldCoord 3 5)
        = (example_scaled\<lparr>m_point_coord := PointWorldCoord 3 5\<rparr>,
           [requestRedraw, positionChanged 7])
   \<and> snd (setCoord (fst (setCoord example_scaled (PointWorldCoord 3 5))) (PointWorldCoord 3 5)) = []"
proof -
  have same: "PointWorldCoord 3 4 = m_point_coord example_scaled"
    by (simp add: example_defs)
  have other: "PointWorldCoord 3 5 \<noteq> m_point_coord example_scaled"
    by (simp add: example_defs)
  have id: "this_id example_scaled = 7"
    by (simp add: example_defs)
  note unchanged = setCoord_notifications [of "PointWorldCoord 3 4" example_scaled]
  note changed = setCoord_notifications [of "PointWorldCoord 3 5" example_scaled]
  from unchanged same
  have c1: "setCoord example_scaled (PointWorldCoord 3 4) = (example_scaled, [])"
    by blast
  from changed other
  have "setCoord example_scaled (PointWorldCoord 3 5)
      = (example_scaled\<lparr>m_point_coord := PointWorldCoord 3 5\<rparr>,
         [requestRedraw, positionChanged (this_id example_scaled)])"
    by blast
  with id
  have c2: "setCoord example_scaled (PointWorldCoord 3 5)
      = (example_scaled\<lparr>m_point_coord := PointWorldCoord 3 5\<rparr>,
         [requestRedraw, positionChanged 7])"
    by simp
  from changed
  have c3: "snd (setCoord (fst (setCoord example_scaled (PointWorldCoord 3 5))) (PointWorldCoord 3 5)) = []"
    by simp
  from same c1 other c2 c3 show ?thesis by blast
qed

section \<open>Drawing\<close>

text \<open>
  Claim C5. When \<open>isVisible(zoom)\<close> is false, \<open>draw\<close> issues no painter call at all:
  no \<open>drawPixmap\<close>, \<open>drawPoint\<close>, \<open>setPen\<close> or \<open>drawText\<close>, whatever the image, the pen
  and the metadata of the geometry are.
\<close>

theorem draw_invisible_no_calls:
  "\<not> isVisible g zoom \<Longrightarrow> draw ext g backbuffer_rect_px zoom = []"
  by (simp add: draw_def)

text \<open>The example point at zoom 18, outside its range 0 to 17, with its pixmap and without.\<close>

theorem draw_invisible_no_calls_witness:
  "\<not> isVisible example_scaled 18
   \<and> draw example_ext example_scaled (QRectF 0 0 4000000 5000000) 18 = []
   \<and> \<not> isVisible (fst (setPixmap example_scaled None)) 18
   \<and> draw example_ext (fst (setPixmap example_scaled None)) (QRectF 0 0 4000000 5000000) 18 = []"
proof -
  have h1: "\<not> isVisible example_scaled 18"
    by (simp add: isVisible_def example_defs)
  have h2: "\<not> isVisible (fst (setPixmap example_scaled None)) 18"
    by (simp add: isVisible_def example_defs setPixmap_def)
  from draw_invisible_no_calls [OF h1] draw_invisible_no_calls [OF h2] h1 h2
  show ?thesis by simp
qed

text \<open>
  Claim C8. \<open>setPixmap\<close> replaces the stored image and emits \<open>requestRedraw()\<close>, and
  nothing else; every other member keeps its value, except that a non-null image also
  sets the base size to the size of the new image (the overload taking a \<open>QPixmap\<close> by
  reference always does). A null image is a state like any other: the geometry then has
  the size (1,1) of a point, and \<open>draw\<close> draws it as a point, that is, when the geometry is
  visible and its anchor pixel lies in the backbuffer rectangle, \<open>setPen\<close> with the
  geometry's pen, \<open>drawPoint\<close> at the anchor pixel, and the metadata label if one is to
  be shown; it never calls \<open>drawPixmap\<close>. An empty pixmap passed by reference is drawn
  the same way.
\<close>

theorem setPixmap_replaces_image:
  "setPixmap g pixmap
     = (g\<lparr>m_pixmap := pixmap,
          m_base_size_px := (case pixmap of None \<Rightarrow> m_base_size_px g
                                          | Some p \<Rightarrow> toQSizeF (pixmap_size p))\<rparr>,
        [requestRedraw])
   \<and> m_pixmap (fst (setPixmap g pixmap)) = pixmap
   \<and> m_base_size_px (fst (setPixmap g (Some p))) = toQSizeF (pixmap_size p)
   \<and> setPixmap_value g p
       = (g\<lparr>m_pixmap := Some p, m_base_size_px := toQSizeF (pixmap_size p)\<rparr>, [requestRedraw])
   \<and> calculateGeometrySizePx (fst (setPixmap g None)) zoom = QSizeF 1 1
   \<and> draw ext (fst (setPixmap g None)) backbuffer_rect_px zoom
       = (let point = rawPointPx (toPointWorldPx ext (m_point_coord g) zoom)
          in if isVisible g zoom \<and> contains ext backbuffer_rect_px point
             then Painter_setPen (pen g) # Painter_drawPoint point #
                  (if showsMetadata g zoom
                   then [Painter_drawText
                           (QPointF (xp point + m_metadata_displayed_alignment_offset_px g)
                                    (yp point - m_metadata_displayed_alignment_offset_px g))
                           (toString (getMetadata g (m_metadata_displayed_key g)))]
                   else [])
             else [])
   \<and> (isEmpty (pixmap_size p) \<longrightarrow>
        draw ext (fst (setPixmap_value g p)) backbuffer_rect_px zoom
          = draw ext (fst (setPixmap g None)) backbuffer_rect_px zoom)"
  by (cases pixmap)
     (simp_all add: setPixmap_def setPixmap_value_def calculateGeometrySizePx_def draw_def
        drawAsPoint_def isVisible_def showsMetadata_def getMetadata_def Let_def
        PointWorldPx_add_def PointWorldPx_def px_x_def px_y_def)

text \<open>The example point given a 48 by 24 pixmap, and given no pixmap, drawn at zoom 10 (with
  its label) and at zoom 9 (below the label threshold).\<close>

theorem setPixmap_replaces_image_witness:
  "setPixmap example_scaled (Some (QPixmap (QSize 48 24) 2))
     = (example_scaled\<lparr>m_pixmap := Some (QPixmap (QSize 48 24) 2), m_base_size_px := QSizeF 48 24\<rparr>,
        [requestRedraw])
   \<and> snd (setPixmap example_scaled None) = [requestRedraw]
   \<and> m_pixmap (fst (setPixmap example_scaled None)) = None
   \<and> draw example_ext (fst (setPixmap example_scaled None)) (QRectF 0 0 4000 5000) 10
       = [Painter_setPen (QPen 0), Painter_drawPoint (QPointF 3072 4096),
          Painter_drawText (QPointF 3077 4091) ''cafe'']
   \<and> draw example_ext (fst (setPixmap example_scaled None)) (QRectF 0 0 4000 5000) 9
       = [Painter_setPen (QPen 0), Painter_drawPoint (QPointF 1536 2048)]
   \<and> isEmpty (pixmap_size (QPixmap (QSize 0 0) 0))
   \<and> draw example_ext (fst (setPixmap_value example_scaled (QPixmap (QSize 0 0) 0)))
         (QRectF 0 0 4000 5000) 9
       = [Painter_setPen (QPen 0), Painter_drawPoint (QPointF 1536 2048)]"
proof -
  note some = setPixmap_replaces_image
    [where g = example_scaled and pixmap = "Some (QPixmap (QSize 48 24) 2)"]
  note none_10 = setPixmap_replaces_image
    [where g = example_scaled and pixmap = None and ext = example_ext
       and backbuffer_rect_px = "QRectF 0 0 4000 5000" and zoom = 10]
  note none_9 = setPixmap_replaces_image
    [where g = example_scaled and pixmap = None and ext = example_ext
       and backbuffer_rect_px = "QRectF 0 0 4000 5000" and zoom = 9
       and p = "QPixmap (QSize 0 0) 0"]
  have c1: "setPixmap example_scaled (Some (QPixmap (QSize 48 24) 2))
     = (example_scaled\<lparr>m_pixmap := Some (QPixmap (QSize 48 24) 2), m_base_size_px := QSizeF 48 24\<rparr>,
        [requestRedraw])"
    using some [THEN conjunct1] by (simp add: toQSizeF_def)
  have c2: "snd (setPixmap example_scaled None) = [requestRedraw]"
    using none_10 [THEN conjunct1] by simp
  have c3: "m_pixmap (fst (setPixmap example_scaled None)) = None"
    using none_10 [THEN conjunct2, THEN conjunct1] by simp
  have anchor_9:
    "rawPointPx (toPointWorldPx example_ext (m_point_coord example_scaled) 9) = QPointF 1536 2048"
    by (simp add: example_defs example_ext_sel PointWorldPx_def)
  have vis_9: "isVisible example_scaled 9"
    by (simp add: isVisible_def example_defs)
  have fields:
    "pen example_scaled = QPen 0"
    "m_metadata_displayed_alignment_offset_px example_scaled = 5"
    "showsMetadata example_scaled 10" "\<not> showsMetadata example_scaled 9"
    "toString (getMetadata example_scaled (m_metadata_displayed_key example_scaled)) = ''cafe''"
    by (simp_all add: example_defs showsMetadata_def getMetadata_def isNull_def toString_def)
  have c4: "draw example_ext (fst (setPixmap example_scaled None)) (QRectF 0 0 4000 5000) 10
       = [Painter_setPen (QPen 0), Painter_drawPoint (QPointF 3072 4096),
          Painter_drawText (QPointF 3077 4091) ''cafe'']"
    using none_10 [THEN conjunct2, THEN conjunct2, THEN conjunct2, THEN conjunct2, THEN conjunct2,
        THEN conjunct1]
    by (simp add: example_anchor_10 example_visible fields example_ext_sel(5) example_contains_def)
  have c5: "draw example_ext (fst (setPixmap example_scaled None)) (QRectF 0 0 4000 5000) 9
       = [Painter_setPen (QPen 0), Painter_drawPoint (QPointF 1536 2048)]"
    using none_9 [THEN conjunct2, THEN conjunct2, THEN conjunct2, THEN conjunct2, THEN conjunct2,
        THEN conjunct1]
    by (simp add: anchor_9 vis_9 fields example_ext_sel(5) example_contains_def)
  have empty: "isEmpty (pixmap_size (QPixmap (QSize 0 0) 0))"
    by (simp add: isEmpty_def)
  have c6: "draw example_ext (fst (setPixmap_value example_scaled (QPixmap (QSize 0 0) 0)))
         (QRectF 0 0 4000 5000) 9
       = [Painter_setPen (QPen 0), Painter_drawPoint (QPointF 1536 2048)]"
    using none_9 [THEN conjunct2, THEN conjunct2, THEN conjunct2, THEN conjunct2, THEN conjunct2,
        THEN conjunct2] empty c5
    by simp
  from c1 c2 c3 c4 c5 empty c6 show ?thesis by blast
qed

section \<open>Sizing without a base zoom\<close>

lemma example_stale_fields:
  "m_pixmap example_stale = Some (QPixmap (QSize 64 64) 2)"
  "m_base_zoom example_stale = - 1"
  "m_base_size_px example_stale = QSizeF 32 32"
  by (simp_all add: example_stale_def example_defs)

text \<open>
  Claim C6, as the code has it. When the base zoom is unset (the sentinel \<open>-1\<close>),
  \<open>calculateGeometrySizePx\<close> on a GeometryPoint with a non-empty image returns the current
  size of the image, \<open>m_pixmap->size()\<close>, for every queried zoom, whatever minimum and
  maximum draw sizes are configured: no clamp is applied. That size is the base size
  right after the base size was captured from the image: for a newly constructed point
  and after either \<open>setPixmap\<close>. (A point constructed with a 32 by 32 image is sized
  (32,32) at zoom 0 and at zoom 20.)
\<close>

theorem calculateGeometrySizePx_base_zoom_unset:
  assumes "m_pixmap g = Some p" and "isEmpty (pixmap_size p) = False" and "m_base_zoom g = - 1"
    and "isEmpty (pixmap_size q) = False"
  shows "calculateGeometrySizePx g zoom = toQSizeF (pixmap_size p)
    \<and> calculateGeometrySizePx (GeometryPoint_new base point_coord q) zoom
        = m_base_size_px (GeometryPoint_new base point_coord q)
    \<and> calculateGeometrySizePx (fst (setPixmap g (Some q))) zoom
        = m_base_size_px (fst (setPixmap g (Some q)))
    \<and> calculateGeometrySizePx (fst (setPixmap_value g q)) zoom
        = m_base_size_px (fst (setPixmap_value g q))"
  using assms
  by (simp add: calculateGeometrySizePx_def GeometryPoint_new_def setPixmap_def
      setPixmap_value_def)

text \<open>The 32 by 32 example with clamps (100,100) and (200,200) configured is sized (32,32),
  its base size, at zoom 0 and at zoom 20.\<close>

theorem calculateGeometrySizePx_base_zoom_unset_witness:
  "m_pixmap example_unscaled = Some (QPixmap (QSize 32 32) 1)
   \<and> isEmpty (pixmap_size (QPixmap (QSize 32 32) 1)) = False
   \<and> m_base_zoom example_unscaled = - 1
   \<and> m_base_size_px example_unscaled = QSizeF 32 32
   \<and> m_draw_minimum_px example_unscaled = QSizeF 100 100
   \<and> m_draw_maximum_px example_unscaled = QSizeF 200 200
   \<and> calculateGeometrySizePx example_unscaled 0 = QSizeF 32 32
   \<and> calculateGeometrySizePx example_unscaled 20 = QSizeF 32 32
   \<and> calculateGeometrySizePx (fst (setPixmap_value example_unscaled (QPixmap (QSize 32 32) 1))) 20
       = m_base_size_px (fst (setPixmap_value example_unscaled (QPixmap (QSize 32 32) 1)))"
proof -
  note at_0 = calculateGeometrySizePx_base_zoom_unset
    [OF example_unscaled_fields(1) example_pixmap_32(1) example_unscaled_fields(2)
        example_pixmap_32(1), where zoom = 0]
  note at_20 = calculateGeometrySizePx_base_zoom_unset
    [OF example_unscaled_fields(1) example_pixmap_32(1) example_unscaled_fields(2)
        example_pixmap_32(1), where zoom = 20]
  have c0: "calculateGeometrySizePx example_unscaled 0 = QSizeF 32 32"
    using at_0 [THEN conjunct1] by (simp add: toQSizeF_def)
  have c20: "calculateGeometrySizePx example_unscaled 20 = QSizeF 32 32"
    using at_20 [THEN conjunct1] by (simp add: toQSizeF_def)
  note c_set = at_20 [THEN conjunct2, THEN conjunct2, THEN conjunct2]
  from example_unscaled_fields example_pixmap_32(1) c0 c20 c_set show ?thesis by blast
qed

text \<open>
  The size returned is not always the base size: on the example whose image was replaced
  in place by a 64 by 64 one, the base zoom is unset, the base size is still (32,32), and
  the size returned is (64,64).
\<close>

theorem calculateGeometrySizePx_base_zoom_unset_counterexample:
  "m_pixmap example_stale = Some (QPixmap (QSize 64 64) 2)
   \<and> isEmpty (pixmap_size (QPixmap (QSize 64 64) 2)) = False
   \<and> m_base_zoom example_stale = - 1
   \<and> m_base_size_px example_stale = QSizeF 32 32
   \<and> calculateGeometrySizePx example_stale 0 = QSizeF 64 64
   \<and> calculateGeometrySizePx example_stale 0 \<noteq> m_base_size_px example_stale"
  by (simp add: example_stale_fields calculateGeometrySizePx_def isEmpty_def toQSizeF_def)

text \<open>
  Claim C9, as the code has it. The scaling branch of \<open>calculateGeometrySizePx\<close> is
  entered only for a base zoom greater than 0, so every base zoom less than or equal to 0
  behaves as unset: after \<open>setBaseZoom(0)\<close>, or \<open>setBaseZoom\<close> of any non-positive value, a
  GeometryPoint with a non-empty image is sized at the current size of its image for
  every queried zoom, exactly as after \<open>setBaseZoom(-1)\<close>, and the minimum and maximum draw
  sizes are never applied. That size is the base size when \<open>setBaseZoom\<close> follows the
  construction of the point or either \<open>setPixmap\<close>, which capture the base size from the
  image.
\<close>

theorem calculateGeometrySizePx_base_zoom_nonpositive:
  assumes "m_pixmap g = Some p" and "isEmpty (pixmap_size p) = False" and "base_zoom \<le> 0"
    and "isEmpty (pixmap_size q) = False"
  shows "calculateGeometrySizePx (fst (setBaseZoom g base_zoom)) zoom = toQSizeF (pixmap_size p)
    \<and> calculateGeometrySizePx (fst (setBaseZoom g 0)) zoom = toQSizeF (pixmap_size p)
    \<and> calculateGeometrySizePx (fst (setBaseZoom g base_zoom)) zoom
        = calculateGeometrySizePx (fst (setBaseZoom g (- 1))) zoom
    \<and> calculateGeometrySizePx (fst (setBaseZoom (GeometryPoint_new base point_coord q) base_zoom)) zoom
        = m_base_size_px (fst (setBaseZoom (GeometryPoint_new base point_coord q) base_zoom))
    \<and> calculateGeometrySizePx (fst (setBaseZoom (fst (setPixmap g (Some q))) base_zoom)) zoom
        = m_base_size_px (fst (setBaseZoom (fst (setPixmap g (Some q))) base_zoom))
    \<and> calculateGeometrySizePx (fst (setBaseZoom (fst (setPixmap_value g q)) base_zoom)) zoom
        = m_base_size_px (fst (setBaseZoom (fst (setPixmap_value g q)) base_zoom))"
  using assms
  by (simp add: calculateGeometrySizePx_def setBaseZoom_def GeometryPoint_new_def setPixmap_def
      setPixmap_value_def)

text \<open>The 32 by 32 example with clamps configured, after \<open>setBaseZoom(0)\<close>.\<close>

theorem calculateGeometrySizePx_base_zoom_nonpositive_witness:
  "m_pixmap example_unscaled = Some (QPixmap (QSize 32 32) 1)
   \<and> isEmpty (pixmap_size (QPixmap (QSize 32 32) 1)) = False
   \<and> (0::int) \<le> 0
   \<and> m_draw_minimum_px (fst (setBaseZoom example_unscaled 0)) = QSizeF 100 100
   \<and> m_draw_maximum_px (fst (setBaseZoom example_unscaled 0)) = QSizeF 200 200
   \<and> m_base_size_px (fst (setBaseZoom example_unscaled 0)) = QSizeF 32 32
   \<and> calculateGeometrySizePx (fst (setBaseZoom example_unscaled 0)) 0 = QSizeF 32 32
   \<and> calculateGeometrySizePx (fst (setBaseZoom example_unscaled 0)) 20 = QSizeF 32 32
   \<and> calculateGeometrySizePx
        (fst (setBaseZoom (fst (setPixmap_value example_unscaled (QPixmap (QSize 32 32) 1))) 0)) 20
       = m_base_size_px
           (fst (setBaseZoom (fst (setPixmap_value example_unscaled (QPixmap (QSize 32 32) 1))) 0))"
proof -
  have le: "(0::int) \<le> 0" by simp
  note at_0 = calculateGeometrySizePx_base_zoom_nonpositive
    [OF example_unscaled_fields(1) example_pixmap_32(1) le example_pixmap_32(1), where zoom = 0]
  note at_20 = calculateGeometrySizePx_base_zoom_nonpositive
    [OF example_unscaled_fields(1) example_pixmap_32(1) le example_pixmap_32(1), where zoom = 20]
  have c0: "calculateGeometrySizePx (fst (setBaseZoom example_unscaled 0)) 0 = QSizeF 32 32"
    using at_0 [THEN conjunct1] by (simp add: toQSizeF_def)
  have c20: "calculateGeometrySizePx (fst (setBaseZoom example_unscaled 0)) 20 = QSizeF 32 32"
    using at_20 [THEN conjunct1] by (simp add: toQSizeF_def)
  note c_set = at_20 [THEN conjunct2, THEN conjunct2, THEN conjunct2, THEN conjunct2, THEN conjunct2]
  have mn: "m_draw_minimum_px (fst (setBaseZoom example_unscaled 0)) = QSizeF 100 100"
    by (simp add: setBaseZoom_def example_unscaled_fields)
  have mx: "m_draw_maximum_px (fst (setBaseZoom example_unscaled 0)) = QSizeF 200 200"
    by (simp add: setBaseZoom_def example_unscaled_fields)
  have bs: "m_base_size_px (fst (setBaseZoom example_unscaled 0)) = QSizeF 32 32"
    by (simp add: setBaseZoom_def example_unscaled_fields)
  from example_unscaled_fields(1) example_pixmap_32(1) le mn mx bs c0 c20 c_set
  show ?thesis by blast
qed

text \<open>
  After \<open>setBaseZoom(0)\<close> the size returned is not always the base size: on the example
  whose image was replaced in place by a 64 by 64 one, the base size is still (32,32) and
  the size returned is (64,64).
\<close>

theorem calculateGeometrySizePx_base_zoom_nonpositive_counterexample:
  "m_pixmap (fst (setBaseZoom example_stale 0)) = Some (QPixmap (QSize 64 64) 2)
   \<and> isEmpty (pixmap_size (QPixmap (QSize 64 64) 2)) = False
   \<and> m_base_zoom (fst (setBaseZoom example_stale 0)) = 0
   \<and> m_base_size_px (fst (setBaseZoom example_stale 0)) = QSizeF 32 32
   \<and> calculateGeometrySizePx (fst (setBaseZoom example_stale 0)) 20 = QSizeF 64 64
   \<and> calculateGeometrySizePx (fst (setBaseZoom example_stale 0)) 20
       \<noteq> m_base_size_px (fst (setBaseZoom example_stale 0))"
  by (simp add: example_stale_fields setBaseZoom_def calculateGeometrySizePx_def isEmpty_def
      toQSizeF_def)

section \<open>Bounding box\<close>

lemma calculateGeometrySizePx_spec_scaled_size:
  "calculateGeometrySizePx g zoom = spec_scaled_size g zoom"
  by (cases "m_pixmap g")
     (auto simp: calculateGeometrySizePx_def spec_scaled_size_def spec_clamp_def scaleToZoom_def
        clampDrawSize_def setHeight_def setWidth_def isEmpty_def toQSizeF_def Let_def)

text \<open>
  Claim C7. \<open>boundingBox(zoom)\<close> is the rectangle obtained by projecting the anchor world
  coordinate to pixels at that zoom, computing the zoom-scaled size, applying the
  alignment to get the top-left pixel, taking the bottom-right pixel as top-left plus
  (width, height), and converting both corner pixels back to world coordinates with the
  projection: the two converted corners are the top-left and the bottom-right corner of
  the result, and the size used is the zoom-scaled size written out in
  \<open>spec_scaled_size\<close>.
\<close>

theorem boundingBox_corners:
  "boundingBox ext g zoom = boundingBox_spec ext g zoom
   \<and> topLeft (boundingBox ext g zoom)
       = rawPointCoord (toPointWorldCoord ext (spec_top_left_px ext g zoom) zoom)
   \<and> bottomRight (boundingBox ext g zoom)
       = rawPointCoord (toPointWorldCoord ext (spec_bottom_right_px ext g zoom) zoom)"
  by (simp add: boundingBox_def boundingBox_spec_def spec_top_left_px_def spec_bottom_right_px_def
      spec_anchor_px_def Let_def topLeft_def bottomRight_def QRectF_corners_def
      calculateGeometrySizePx_spec_scaled_size PointWorldPx_def px_x_def px_y_def)

lemma example_spec_size:
  "spec_scaled_size example_scaled 11 = QSizeF 64 64"
  "spec_scaled_size example_clamped 5 = QSizeF 20 20"
  by (simp_all add: spec_scaled_size_def spec_clamp_def example_defs)

lemma example_spec_corners:
  "spec_top_left_px example_ext example_scaled 11 = PointWorldPx 6112 8160"
  "spec_bottom_right_px example_ext example_scaled 11 = PointWorldPx 6176 8224"
  "spec_top_left_px example_ext example_clamped 5 = PointWorldPx 86 118"
  "spec_bottom_right_px example_ext example_clamped 5 = PointWorldPx 106 138"
proof -
  have a: "spec_anchor_px example_ext example_scaled 11 = PointWorldPx 6144 8192"
    by (simp add: spec_anchor_px_def example_ext_sel example_defs)
  have b: "spec_anchor_px example_ext example_clamped 5 = PointWorldPx 96 128"
    by (simp add: spec_anchor_px_def example_ext_sel example_defs)
  have al: "m_alignment_type example_scaled = Middle" "m_alignment_type example_clamped = Middle"
    by (simp_all add: example_defs)
  show t: "spec_top_left_px example_ext example_scaled 11 = PointWorldPx 6112 8160"
    by (simp add: spec_top_left_px_def a al example_spec_size example_ext_sel
        example_fx_def example_fy_def px_x_def px_y_def PointWorldPx_def)
  show "spec_bottom_right_px example_ext example_scaled 11 = PointWorldPx 6176 8224"
    by (simp add: spec_bottom_right_px_def t example_spec_size PointWorldPx_def)
  show u: "spec_top_left_px example_ext example_clamped 5 = PointWorldPx 86 118"
    by (simp add: spec_top_left_px_def b al example_spec_size example_ext_sel
        example_fx_def example_fy_def px_x_def px_y_def PointWorldPx_def)
  show "spec_bottom_right_px example_ext example_clamped 5 = PointWorldPx 106 138"
    by (simp add: spec_bottom_right_px_def u example_spec_size PointWorldPx_def)
qed

lemma example_to_world:
  "rawPointCoord (toPointWorldCoord example_ext (PointWorldPx x y) 11)
     = QPointF (x / 2048) (y / 2048)"
  "rawPointCoord (toPointWorldCoord example_ext (PointWorldPx x y) 5)
     = QPointF (x / 32) (y / 32)"
  by (simp_all add: example_ext_sel px_x_def px_y_def PointWorldPx_def PointWorldCoord_def)

text \<open>
  The 32 by 32 example at zoom 11, one level above its base zoom: anchor pixel
  (6144, 8192), size (64,64), aligned to the middle, so the pixel corners are (6112, 8160)
  and (6176, 8224) and the box is \<open>64 / 2048 = 1 / 32\<close> wide. The 100 by 100 example at
  zoom 5, where the minimum draw size decides: anchor pixel (96, 128), size (20,20), pixel
  corners (86, 118) and (106, 138), and the box is \<open>20 / 32 = 5 / 8\<close> wide.
\<close>

theorem boundingBox_corners_witness:
  "boundingBox example_ext example_scaled 11 = QRectF (191 / 64) (255 / 64) (1 / 32) (1 / 32)
   \<and> topLeft (boundingBox example_ext example_scaled 11) = QPointF (6112 / 2048) (8160 / 2048)
   \<and> bottomRight (boundingBox example_ext example_scaled 11) = QPointF (6176 / 2048) (8224 / 2048)
   \<and> boundingBox example_ext example_clamped 5 = QRectF (86 / 32) (118 / 32) (5 / 8) (5 / 8)
   \<and> topLeft (boundingBox example_ext example_clamped 5) = QPointF (86 / 32) (118 / 32)
   \<and> bottomRight (boundingBox example_ext example_clamped 5) = QPointF (106 / 32) (138 / 32)"
proof -
  note scaled = boundingBox_corners [of example_ext example_scaled 11]
  note clamped = boundingBox_corners [of example_ext example_clamped 5]
  have c1: "boundingBox example_ext example_scaled 11
      = QRectF (191 / 64) (255 / 64) (1 / 32) (1 / 32)"
    using scaled [THEN conjunct1]
    by (simp add: boundingBox_spec_def example_spec_corners example_to_world QRectF_corners_def)
  have c2: "topLeft (boundingBox example_ext example_scaled 11)
      = QPointF (6112 / 2048) (8160 / 2048)"
    using scaled [THEN conjunct2, THEN conjunct1]
    by (simp add: example_spec_corners example_to_world)
  have c3: "bottomRight (boundingBox example_ext example_scaled 11)
      = QPointF (6176 / 2048) (8224 / 2048)"
    using scaled [THEN conjunct2, THEN conjunct2]
    by (simp add: example_spec_corners example_to_world)
  have c4: "boundingBox example_ext example_clamped 5
      = QRectF (86 / 32) (118 / 32) (5 / 8) (5 / 8)"
    using clamped [THEN conjunct1]
    by (simp add: boundingBox_spec_def example_spec_corners example_to_world QRectF_corners_def)
  have c5: "topLeft (boundingBox example_ext example_clamped 5) = QPointF (86 / 32) (118 / 32)"
    using clamped [THEN conjunct2, THEN conjunct1]
    by (simp add: example_spec_corners example_to_world)
  have c6: "bottomRight (boundingBox example_ext example_clamped 5)
      = QPointF (106 / 32) (138 / 32)"
    using clamped [THEN conjunct2, THEN conjunct2]
    by (simp add: example_spec_corners example_to_world)
  from c1 c2 c3 c4 c5 c6 show ?thesis by blast
qed

section \<open>Plain attribute setters\<close>

text \<open>
  Claim C10. \<open>setAlignmentType\<close>, \<open>setBaseZoom\<close>, \<open>setDrawMinimumPx\<close> and
  \<open>setDrawMaximumPx\<close> emit no signal (no redraw request, no position change) and each
  changes its own member only: the coordinate, the image, the base size and every other
  member are as before.
\<close>

theorem plain_setters_frame:
  "setAlignmentType g alignment_type = (g\<lparr>m_alignment_type := alignment_type\<rparr>, [])
   \<and> setBaseZoom g zoom = (g\<lparr>m_base_zoom := zoom\<rparr>, [])
   \<and> setDrawMinimumPx g size_px = (g\<lparr>m_draw_minimum_px := size_px\<rparr>, [])
   \<and> setDrawMaximumPx g size_px = (g\<lparr>m_draw_maximum_px := size_px\<rparr>, [])"
  by (simp add: setAlignmentType_def setBaseZoom_def setDrawMinimumPx_def setDrawMaximumPx_def)

text \<open>The four setters on the example point.\<close>

theorem plain_setters_frame_witness:
  "setAlignmentType example_scaled TopLeft = (example_scaled\<lparr>m_alignment_type := TopLeft\<rparr>, [])
   \<and> setBaseZoom example_scaled 12 = (example_scaled\<lparr>m_base_zoom := 12\<rparr>, [])
   \<and> setDrawMinimumPx example_scaled (QSizeF 8 8) = (example_scaled\<lparr>m_draw_minimum_px := QSizeF 8 8\<rparr>, [])
   \<and> setDrawMaximumPx example_scaled (QSizeF 8 8) = (example_scaled\<lparr>m_draw_maximum_px := QSizeF 8 8\<rparr>, [])"
  using plain_setters_frame [of example_scaled TopLeft 12 "QSizeF 8 8"] by simp

end
